theory Spec2Isabelle
  imports Main
begin

section \<open>The chess case study: data model\<close>

text \<open>
  The development embeds \<^verbatim>\<open>case-studies/chess/implementation.cpp\<close>. Classes become
  records, enums become datatypes, member functions become functions that take the
  object (and return the updated object where the member function mutates it).
  The source's \<^verbatim>\<open>int\<close> is modelled by the unbounded \<open>int\<close>: every coordinate that the
  code computes is a board coordinate plus or minus a small constant, and the two counters
  only ever grow by one per accepted move.
\<close>

datatype Color = WHITE | BLACK

datatype PieceType = PAWN | ROOK | KNIGHT | BISHOP | QUEEN | KING

datatype error = InvalidNotation

text \<open>\<^verbatim>\<open>class Position { int row; int col; ... }\<close>\<close>

datatype Position = Position (getRow: int) (getCol: int)

definition isValid :: "Position \<Rightarrow> bool" where
  "isValid pos \<longleftrightarrow> getRow pos \<ge> 0 \<and> getRow pos < 8 \<and> getCol pos \<ge> 0 \<and> getCol pos < 8"

text \<open>
  The value of a \<^verbatim>\<open>char\<close> in arithmetic. Plain \<^verbatim>\<open>char\<close> is signed where the source is
  compiled with g++ on x86-64: the bytes from 128 on are negative.
\<close>

definition char_value :: "char \<Rightarrow> int" where
  "char_value c = (if (of_char c :: int) < 128 then of_char c else of_char c - 256)"

text \<open>
  \<^verbatim>\<open>Position(const string& notation)\<close>: the only check is the length of the string; it
  throws \<^verbatim>\<open>invalid_argument("Invalid position notation")\<close>, the error \<open>InvalidNotation\<close>
  here.
\<close>

definition Position_of_notation :: "string \<Rightarrow> error + Position" where
  "Position_of_notation notation =
     (if length notation \<noteq> 2 then Inl InvalidNotation
      else Inr (Position (8 - (char_value (notation ! 1) - char_value (CHR ''0'')))
                         (char_value (notation ! 0) - char_value (CHR ''a''))))"

text \<open>
  \<^verbatim>\<open>getNotation\<close>: \<^verbatim>\<open>notation += 'a' + col\<close> computes an \<^verbatim>\<open>int\<close> and narrows it to a
  \<^verbatim>\<open>char\<close>, which \<open>char_of\<close> does (it keeps the low eight bits).
\<close>

definition getNotation :: "Position \<Rightarrow> string" where
  "getNotation pos =
     [char_of (char_value (CHR ''a'') + getCol pos),
      char_of (char_value (CHR ''0'') + (8 - getRow pos))]"

text \<open>The form \<^verbatim>\<open>[a-h][1-8]\<close> that the specification names.\<close>

definition isSquareName :: "string \<Rightarrow> bool" where
  "isSquareName notation \<longleftrightarrow>
     length notation = 2 \<and>
     notation ! 0 \<in> set ''abcdefgh'' \<and> notation ! 1 \<in> set ''12345678''"

text \<open>
  \<^verbatim>\<open>class Piece { Color color; Position position; bool hasMoved; }\<close> with the virtual
  \<^verbatim>\<open>getType()\<close>, which is fixed per object and so a field here. The field \<open>position\<close>
  is the square given to the constructor: the source never calls \<^verbatim>\<open>setPosition\<close>.
\<close>

record Piece =
  color :: Color
  position :: Position
  hasMoved :: bool
  getType :: PieceType

definition mkPiece :: "PieceType \<Rightarrow> Color \<Rightarrow> Position \<Rightarrow> Piece" where
  "mkPiece t c pos = \<lparr>color = c, position = pos, hasMoved = False, getType = t\<rparr>"

text \<open>
  \<^verbatim>\<open>class Board\<close>: the private 8x8 \<^verbatim>\<open>squares\<close> is only ever read and written through
  \<^verbatim>\<open>getPiece\<close>, \<^verbatim>\<open>setPiece\<close> and \<^verbatim>\<open>movePiece\<close>, each of which checks \<^verbatim>\<open>isValid\<close> before
  it indexes; the board is the map from squares to their occupants.
\<close>

type_synonym Board = "Position \<Rightarrow> Piece option"

definition Board_new :: Board where
  "Board_new = (\<lambda>pos. None)"

definition getPiece :: "Board \<Rightarrow> Position \<Rightarrow> Piece option" where
  "getPiece squares pos = (if \<not> isValid pos then None else squares pos)"

definition setPiece :: "Board \<Rightarrow> Position \<Rightarrow> Piece option \<Rightarrow> Board" where
  "setPiece squares pos piece = (if \<not> isValid pos then squares else squares(pos := piece))"

text \<open>
  \<^verbatim>\<open>squares[to] = move(squares[from])\<close>: the occupant of \<open>to\<close> is destroyed and \<open>from\<close> is
  left empty. Move-assigning a \<^verbatim>\<open>unique_ptr\<close> to itself leaves it as it is.
\<close>

definition movePiece :: "Board \<Rightarrow> Position \<Rightarrow> Position \<Rightarrow> Board" where
  "movePiece squares from to =
     (if \<not> isValid from \<or> \<not> isValid to then squares
      else if from = to then squares
      else (squares(to := squares from))(from := None))"

subsection \<open>Move generation\<close>

text \<open>\<^verbatim>\<open>Pawn::getValidMoves\<close>, from the piece's own \<open>position\<close> field.\<close>

definition Pawn_getValidMoves :: "Piece \<Rightarrow> Board \<Rightarrow> Position list" where
  "Pawn_getValidMoves p board =
     (let direction = (if color p = WHITE then -1 else 1);
          forward = Position (getRow (position p) + direction) (getCol (position p));
          doubleForward = Position (getRow (position p) + 2 * direction) (getCol (position p));
          captures = [Position (getRow (position p) + direction) (getCol (position p) - 1),
                      Position (getRow (position p) + direction) (getCol (position p) + 1)]
      in (if isValid forward \<and> getPiece board forward = None
          then forward #
               (if \<not> hasMoved p \<and> getPiece board doubleForward = None then [doubleForward] else [])
          else [])
         @ filter (\<lambda>capture. isValid capture \<and>
                     (case getPiece board capture of
                        None \<Rightarrow> False
                      | Some target \<Rightarrow> color target \<noteq> color p)) captures)"

text \<open>
  Modelled from the spec: the classes of the other five piece kinds, which the source
  leaves out (\<^verbatim>\<open>// Similar implementations for other pieces...\<close>). Like \<^verbatim>\<open>Pawn\<close>, they
  can only start from the piece's \<open>position\<close> field, since \<^verbatim>\<open>getValidMoves(const Board&)\<close>
  receives nothing else. Knight: the 8 fixed-offset jumps, filtered to board bounds and not
  landing on a same-color occupant. Bishop/Rook/Queen: rays along diagonals, files and
  ranks, or both, stopping at the first occupied square, which is a destination only if it
  holds an enemy piece. King: the 8 adjacent squares, excluding same-color occupants.
\<close>

definition notOwn :: "Piece \<Rightarrow> Board \<Rightarrow> Position \<Rightarrow> bool" where
  "notOwn p board pos =
     (case getPiece board pos of None \<Rightarrow> True | Some q \<Rightarrow> color q \<noteq> color p)"

definition offsetMoves :: "Piece \<Rightarrow> Board \<Rightarrow> (int \<times> int) list \<Rightarrow> Position list" where
  "offsetMoves p board offsets =
     filter (\<lambda>pos. isValid pos \<and> notOwn p board pos)
       (map (\<lambda>(dr, dc). Position (getRow (position p) + dr) (getCol (position p) + dc)) offsets)"

text \<open>A ray crosses at most eight squares of the board.\<close>

fun ray :: "nat \<Rightarrow> Piece \<Rightarrow> Board \<Rightarrow> Position \<Rightarrow> int \<times> int \<Rightarrow> Position list" where
  "ray 0 p board pos d = []"
| "ray (Suc n) p board pos (dr, dc) =
     (let next = Position (getRow pos + dr) (getCol pos + dc)
      in if \<not> isValid next then []
         else case getPiece board next of
                None \<Rightarrow> next # ray n p board next (dr, dc)
              | Some q \<Rightarrow> if color q \<noteq> color p then [next] else [])"

definition rayMoves :: "Piece \<Rightarrow> Board \<Rightarrow> (int \<times> int) list \<Rightarrow> Position list" where
  "rayMoves p board dirs = concat (map (ray 8 p board (position p)) dirs)"

definition straightDirs :: "(int \<times> int) list" where
  "straightDirs = [(-1, 0), (1, 0), (0, -1), (0, 1)]"

definition diagonalDirs :: "(int \<times> int) list" where
  "diagonalDirs = [(-1, -1), (-1, 1), (1, -1), (1, 1)]"

definition knightOffsets :: "(int \<times> int) list" where
  "knightOffsets = [(-2, -1), (-2, 1), (-1, -2), (-1, 2), (1, -2), (1, 2), (2, -1), (2, 1)]"

text \<open>The virtual \<^verbatim>\<open>Piece::getValidMoves\<close>, dispatched on the kind.\<close>

definition Piece_getValidMoves :: "Piece \<Rightarrow> Board \<Rightarrow> Position list" where
  "Piece_getValidMoves p board =
     (case getType p of
        PAWN \<Rightarrow> Pawn_getValidMoves p board
      | KNIGHT \<Rightarrow> offsetMoves p board knightOffsets
      | BISHOP \<Rightarrow> rayMoves p board diagonalDirs
      | ROOK \<Rightarrow> rayMoves p board straightDirs
      | QUEEN \<Rightarrow> rayMoves p board (straightDirs @ diagonalDirs)
      | KING \<Rightarrow> offsetMoves p board (straightDirs @ diagonalDirs))"

text \<open>\<^verbatim>\<open>canMoveTo\<close>: \<^verbatim>\<open>find\<close> over the list that \<^verbatim>\<open>getValidMoves\<close> returns.\<close>

definition canMoveTo :: "Piece \<Rightarrow> Position \<Rightarrow> Board \<Rightarrow> bool" where
  "canMoveTo p pos board \<longleftrightarrow> pos \<in> set (Piece_getValidMoves p board)"

section \<open>The game state\<close>

text \<open>
  \<^verbatim>\<open>class Move\<close>. \<open>m_piece\<close> is the mover as \<^verbatim>\<open>makeMove\<close> found it; the source keeps a
  pointer to the live object, of which the model needs the kind (which never changes) and
  the square where the object is (see \<open>executeMove\<close> and \<open>undoMove\<close>). \<open>capturedPiece\<close>
  is the occupant of the destination before the move. \<^verbatim>\<open>promotionType\<close> is never
  initialised and never read.
\<close>

record Move =
  m_from :: Position
  m_to :: Position
  m_piece :: Piece
  capturedPiece :: "Piece option"
  isCastling :: bool
  isEnPassant :: bool
  isPromotion :: bool

definition Move_new :: "Position \<Rightarrow> Position \<Rightarrow> Piece \<Rightarrow> Move" where
  "Move_new from to piece =
     \<lparr>m_from = from, m_to = to, m_piece = piece, capturedPiece = None,
      isCastling = False, isEnPassant = False, isPromotion = False\<rparr>"

text \<open>
  \<^verbatim>\<open>class GameState\<close>. \<^verbatim>\<open>unordered_map<string, int> positionHistory\<close> is an association
  list with one entry per key; the order of its entries is never observed.
\<close>

record GameState =
  board :: Board
  currentPlayer :: Color
  moveHistory :: "Move list"
  whiteKingMoved :: bool
  blackKingMoved :: bool
  whiteRookMoved :: "bool \<times> bool"
  blackRookMoved :: "bool \<times> bool"
  enPassantTarget :: Position
  halfMoveClock :: int
  fullMoveNumber :: int
  positionHistory :: "(string \<times> int) list"

definition opponent :: "Color \<Rightarrow> Color" where
  "opponent c = (if c = WHITE then BLACK else WHITE)"

subsection \<open>Construction\<close>

text \<open>\<^verbatim>\<open>initializeBoard\<close>: the two rows of pawns are the source's.\<close>

definition initializePawns :: "Board \<Rightarrow> Board" where
  "initializePawns b =
     fold (\<lambda>col b. setPiece (setPiece b (Position 1 col) (Some (mkPiece PAWN BLACK (Position 1 col))))
                      (Position 6 col) (Some (mkPiece PAWN WHITE (Position 6 col))))
          [0..7] b"

text \<open>
  Modelled from the spec: the rest of \<^verbatim>\<open>initializeBoard\<close>, which the source leaves out
  (\<^verbatim>\<open>// ... (implementation for other pieces)\<close>). The initial position is the one of
  chess: the moves \<^verbatim>\<open>g1f3\<close>, \<^verbatim>\<open>b8c6\<close>, \<^verbatim>\<open>f1c4\<close>, \<^verbatim>\<open>d1h5\<close>, \<^verbatim>\<open>d8h4\<close> and \<^verbatim>\<open>a8a6\<close> of
  the specification and the tests name a knight, a bishop, a queen and a rook on those
  squares.
\<close>

definition backRank :: "PieceType list" where
  "backRank = [ROOK, KNIGHT, BISHOP, QUEEN, KING, BISHOP, KNIGHT, ROOK]"

definition initializeOthers :: "Board \<Rightarrow> Board" where
  "initializeOthers b =
     fold (\<lambda>(col, t) b. setPiece (setPiece b (Position 0 col) (Some (mkPiece t BLACK (Position 0 col))))
                           (Position 7 col) (Some (mkPiece t WHITE (Position 7 col))))
          (zip [0..7] backRank) b"

definition initializeBoard :: "Board \<Rightarrow> Board" where
  "initializeBoard b = initializeOthers (initializePawns b)"

text \<open>
  The constructor \<^verbatim>\<open>GameState()\<close> initialises \<^verbatim>\<open>currentPlayer\<close>, the two king flags and
  the two counters, and the containers start empty. It leaves \<^verbatim>\<open>whiteRookMoved\<close>,
  \<^verbatim>\<open>blackRookMoved\<close> and \<^verbatim>\<open>enPassantTarget\<close> without a value, and no member function
  ever assigns them: whatever they hold is a parameter here.
\<close>

definition GameState_new :: "bool \<times> bool \<Rightarrow> bool \<times> bool \<Rightarrow> Position \<Rightarrow> GameState" where
  "GameState_new wr br ep =
     \<lparr>board = initializeBoard Board_new, currentPlayer = WHITE, moveHistory = [],
      whiteKingMoved = False, blackKingMoved = False,
      whiteRookMoved = wr, blackRookMoved = br, enPassantTarget = ep,
      halfMoveClock = 0, fullMoveNumber = 1, positionHistory = []\<rparr>"

subsection \<open>Position export\<close>

text \<open>\<^verbatim>\<open>std::to_string(int)\<close>.\<close>

definition digit_char :: "nat \<Rightarrow> char" where
  "digit_char d = char_of (48 + d)"

function digits :: "nat \<Rightarrow> string" where
  "digits n = (if n < 10 then [digit_char n] else digits (n div 10) @ [digit_char (n mod 10)])"
  by pat_completeness auto
termination
  by (relation "measure id") auto

declare digits.simps [simp del]

definition to_string :: "int \<Rightarrow> string" where
  "to_string n = (if n < 0 then CHR ''-'' # digits (nat (- n)) else digits (nat n))"

definition getPieceChar :: "Piece \<Rightarrow> char" where
  "getPieceChar piece =
     (if color piece = WHITE
      then (case getType piece of
              PAWN \<Rightarrow> CHR ''P'' | ROOK \<Rightarrow> CHR ''R'' | KNIGHT \<Rightarrow> CHR ''N''
            | BISHOP \<Rightarrow> CHR ''B'' | QUEEN \<Rightarrow> CHR ''Q'' | KING \<Rightarrow> CHR ''K'')
      else (case getType piece of
              PAWN \<Rightarrow> CHR ''p'' | ROOK \<Rightarrow> CHR ''r'' | KNIGHT \<Rightarrow> CHR ''n''
            | BISHOP \<Rightarrow> CHR ''b'' | QUEEN \<Rightarrow> CHR ''q'' | KING \<Rightarrow> CHR ''k''))"

definition getCastlingString :: "GameState \<Rightarrow> string" where
  "getCastlingString s =
     (let castling =
            (if \<not> whiteKingMoved s
             then (if \<not> fst (whiteRookMoved s) then ''K'' else [])
                  @ (if \<not> snd (whiteRookMoved s) then ''Q'' else [])
             else [])
            @ (if \<not> blackKingMoved s
               then (if \<not> fst (blackRookMoved s) then ''k'' else [])
                    @ (if \<not> snd (blackRookMoved s) then ''q'' else [])
               else [])
      in if castling = [] then ''-'' else castling)"

text \<open>The inner loop of \<^verbatim>\<open>getFEN\<close> over the columns of one row, with its \<^verbatim>\<open>emptyCount\<close>.\<close>

fun fenRow :: "Board \<Rightarrow> int \<Rightarrow> int list \<Rightarrow> int \<Rightarrow> string" where
  "fenRow b row [] emptyCount = (if emptyCount > 0 then to_string emptyCount else [])"
| "fenRow b row (col # cols) emptyCount =
     (case getPiece b (Position row col) of
        Some piece \<Rightarrow>
          (if emptyCount > 0 then to_string emptyCount else [])
          @ getPieceChar piece # fenRow b row cols 0
      | None \<Rightarrow> fenRow b row cols (emptyCount + 1))"

definition fenBoard :: "Board \<Rightarrow> string" where
  "fenBoard b =
     concat (map (\<lambda>row. fenRow b row [0..7] 0 @ (if row < 7 then ''/'' else [])) [0..7])"

text \<open>The first four fields: placement, active color, castling availability, en passant.\<close>

definition fenPosition :: "GameState \<Rightarrow> string" where
  "fenPosition s =
     fenBoard (board s)
     @ CHR '' '' # (if currentPlayer s = WHITE then CHR ''w'' else CHR ''b'')
     # CHR '' '' # getCastlingString s
     @ CHR '' '' # getNotation (enPassantTarget s)"

definition getFEN :: "GameState \<Rightarrow> string" where
  "getFEN s =
     fenPosition s
     @ CHR '' '' # to_string (halfMoveClock s)
     @ CHR '' '' # to_string (fullMoveNumber s)"

subsection \<open>Making and undoing moves\<close>

text \<open>The three special-move handlers have empty bodies in the source.\<close>

definition handleCastling :: "Move \<Rightarrow> Move" where
  "handleCastling move = move"

definition handleEnPassant :: "Move \<Rightarrow> Move" where
  "handleEnPassant move = move"

definition handlePromotion :: "Move \<Rightarrow> Move" where
  "handlePromotion move = move"

text \<open>\<^verbatim>\<open>piece->setHasMoved(v)\<close> for the piece object that stands on \<open>pos\<close>.\<close>

definition setHasMovedAt :: "Board \<Rightarrow> Position \<Rightarrow> (bool \<Rightarrow> bool) \<Rightarrow> Board" where
  "setHasMovedAt b pos f =
     (case getPiece b pos of
        None \<Rightarrow> b
      | Some q \<Rightarrow> setPiece b pos (Some (q\<lparr>hasMoved := f (hasMoved q)\<rparr>)))"

text \<open>
  \<^verbatim>\<open>executeMove\<close>. After \<^verbatim>\<open>board.movePiece\<close> the mover, which \<^verbatim>\<open>move.getPiece()\<close> points
  to, stands on \<open>to\<close> when \<^verbatim>\<open>movePiece\<close> moved it and on \<open>from\<close> when \<^verbatim>\<open>movePiece\<close> returned
  early.
\<close>

definition executeMove :: "GameState \<Rightarrow> Move \<Rightarrow> GameState" where
  "executeMove s move =
     (let captured = getPiece (board s) (m_to move);
          move1 = (if captured \<noteq> None then move\<lparr>capturedPiece := captured\<rparr> else move);
          b1 = movePiece (board s) (m_from move) (m_to move);
          here = (if isValid (m_from move) \<and> isValid (m_to move) then m_to move else m_from move);
          b2 = setHasMovedAt b1 here (\<lambda>_. True)
      in s\<lparr>board := b2,
            moveHistory := moveHistory s @ [move1],
            currentPlayer := opponent (currentPlayer s)\<rparr>)"

text \<open>\<^verbatim>\<open>positionHistory[fen]++\<close>: a missing key is inserted with the count 0 first.\<close>

fun increment :: "string \<Rightarrow> (string \<times> int) list \<Rightarrow> (string \<times> int) list" where
  "increment k [] = [(k, 1)]"
| "increment k ((k', v) # kvs) =
     (if k = k' then (k', v + 1) # kvs else (k', v) # increment k kvs)"

definition updateGameState :: "GameState \<Rightarrow> GameState" where
  "updateGameState s =
     (let lastMove = last (moveHistory s);
          s1 = (if capturedPiece lastMove \<noteq> None \<or> getType (m_piece lastMove) = PAWN
                then s\<lparr>halfMoveClock := 0\<rparr>
                else s\<lparr>halfMoveClock := halfMoveClock s + 1\<rparr>);
          s2 = (if currentPlayer s1 = WHITE
                then s1\<lparr>fullMoveNumber := fullMoveNumber s1 + 1\<rparr>
                else s1);
          fen = getFEN s2
      in s2\<lparr>positionHistory := increment fen (positionHistory s2)\<rparr>)"

text \<open>
  \<^verbatim>\<open>makeMove\<close> returns its \<^verbatim>\<open>bool\<close> together with the state it leaves behind.
  \<^verbatim>\<open>updateGameState\<close> is only reached after \<^verbatim>\<open>executeMove\<close> has pushed a move, so its
  \<^verbatim>\<open>moveHistory.back()\<close> exists.
\<close>

definition makeMove :: "GameState \<Rightarrow> Position \<Rightarrow> Position \<Rightarrow> bool \<times> GameState" where
  "makeMove s from to =
     (case getPiece (board s) from of
        None \<Rightarrow> (False, s)
      | Some piece \<Rightarrow>
          if color piece \<noteq> currentPlayer s then (False, s)
          else if \<not> canMoveTo piece to (board s) then (False, s)
          else let move = Move_new from to piece;
                   move1 = (if getType piece = KING then handleCastling move
                            else if getType piece = PAWN then handlePromotion (handleEnPassant move)
                            else move)
               in (True, updateGameState (executeMove s move1)))"

text \<open>
  \<^verbatim>\<open>undoMove\<close>. After \<^verbatim>\<open>board.movePiece(to, from)\<close> the mover stands on \<open>from\<close> again (it
  never left when \<^verbatim>\<open>movePiece\<close> returned early), and that is where
  \<^verbatim>\<open>lastMove.getPiece()->setHasMoved(!...)\<close> flips the flag.

  When the move captured a piece, the source wraps the raw pointer that the move kept in a
  new \<^verbatim>\<open>unique_ptr\<close> and stores it on \<open>to\<close>. The object behind it was destroyed when
  \<^verbatim>\<open>movePiece\<close> overwrote the square in \<^verbatim>\<open>executeMove\<close>, so the board is left holding a
  pointer to freed memory and no later call on the game has a defined result: the result
  \<open>None\<close>.
\<close>

definition undoMove :: "GameState \<Rightarrow> GameState option" where
  "undoMove s =
     (if moveHistory s = [] then Some s
      else let lastMove = last (moveHistory s)
           in if capturedPiece lastMove \<noteq> None then None
              else let b1 = movePiece (board s) (m_to lastMove) (m_from lastMove);
                       b3 = setHasMovedAt b1 (m_from lastMove) (\<lambda>moved. \<not> moved)
                   in Some (s\<lparr>moveHistory := butlast (moveHistory s),
                              board := b3,
                              currentPlayer := opponent (currentPlayer s)\<rparr>))"

subsection \<open>Check, checkmate, stalemate, draw\<close>

definition allSquares :: "Position list" where
  "allSquares = concat (map (\<lambda>row. map (\<lambda>col. Position row col) [0..7]) [0..7])"

text \<open>The pieces of one color, in the order of the two nested loops over rows and columns.\<close>

definition piecesOf :: "Board \<Rightarrow> Color \<Rightarrow> Piece list" where
  "piecesOf b c = filter (\<lambda>piece. color piece = c) (List.map_filter (getPiece b) allSquares)"

definition isKingOf :: "Color \<Rightarrow> Piece option \<Rightarrow> bool" where
  "isKingOf c x = (case x of None \<Rightarrow> False | Some piece \<Rightarrow> getType piece = KING \<and> color piece = c)"

text \<open>
  The first loop of \<^verbatim>\<open>isCheck\<close>: its \<^verbatim>\<open>break\<close> leaves the loop over the columns only, so
  the king found in the last row that has one is kept. \<open>None\<close>: no king of that color, and
  \<^verbatim>\<open>kingPos\<close> was never assigned.
\<close>

definition findKing :: "Board \<Rightarrow> Color \<Rightarrow> Position option" where
  "findKing b c =
     fold (\<lambda>row kingPos.
             case List.find (\<lambda>col. isKingOf c (getPiece b (Position row col))) [0..7] of
               Some col \<Rightarrow> Some (Position row col)
             | None \<Rightarrow> kingPos)
          [0..7] None"

text \<open>
  \<^verbatim>\<open>isCheck\<close>. Without a king of that color the second loop reads a \<^verbatim>\<open>kingPos\<close> that has
  no value as soon as there is an opposing piece: the result \<open>None\<close>.
\<close>

definition isCheck :: "GameState \<Rightarrow> Color \<Rightarrow> bool option" where
  "isCheck s c =
     (let opponents = piecesOf (board s) (opponent c)
      in case findKing (board s) c of
           None \<Rightarrow> (if opponents = [] then Some False else None)
         | Some kingPos \<Rightarrow>
             Some (list_ex (\<lambda>piece. canMoveTo piece kingPos (board s)) opponents))"

text \<open>
  \<^verbatim>\<open>isCheckmate\<close>. The trial move is made on \<^verbatim>\<open>tempBoard\<close>, from the piece's \<open>position\<close>
  field, and the check that follows is \<^verbatim>\<open>isCheck(color)\<close> of the game itself.
\<close>

definition isCheckmate :: "GameState \<Rightarrow> Color \<Rightarrow> bool option" where
  "isCheckmate s c =
     (case isCheck s c of
        None \<Rightarrow> None
      | Some False \<Rightarrow> Some False
      | Some True \<Rightarrow>
          Some (\<not> list_ex (\<lambda>piece.
                    list_ex (\<lambda>move.
                        let tempBoard = movePiece (board s) (position piece) move
                        in isCheck s c = Some False)
                      (Piece_getValidMoves piece (board s)))
                  (piecesOf (board s) c)))"

definition isStalemate :: "GameState \<Rightarrow> Color \<Rightarrow> bool option" where
  "isStalemate s c =
     (case isCheck s c of
        None \<Rightarrow> None
      | Some True \<Rightarrow> Some False
      | Some False \<Rightarrow>
          Some (\<not> list_ex (\<lambda>piece. Piece_getValidMoves piece (board s) \<noteq> []) (piecesOf (board s) c)))"

definition isInsufficientMaterial :: "GameState \<Rightarrow> bool" where
  "isInsufficientMaterial s = False"

definition isThreefoldRepetition :: "GameState \<Rightarrow> bool" where
  "isThreefoldRepetition s = list_ex (\<lambda>entry. snd entry \<ge> 3) (positionHistory s)"

definition isDraw :: "GameState \<Rightarrow> bool" where
  "isDraw s \<longleftrightarrow> isInsufficientMaterial s \<or> isThreefoldRepetition s \<or> halfMoveClock s \<ge> 50"

text \<open>
  \<^verbatim>\<open>GameState::getValidMoves\<close>. \<^verbatim>\<open>isCheck\<close> is called once per pseudo-legal move, on the
  game itself; \<^verbatim>\<open>tempBoard\<close> is not looked at again.
\<close>

definition getValidMoves :: "GameState \<Rightarrow> Position \<Rightarrow> Position list option" where
  "getValidMoves s pos =
     (case getPiece (board s) pos of
        None \<Rightarrow> Some []
      | Some piece \<Rightarrow>
          let moves = Piece_getValidMoves piece (board s)
          in if moves = [] then Some []
             else (case isCheck s (color piece) of
                     None \<Rightarrow> None
                   | Some inCheck \<Rightarrow>
                       Some (filter (\<lambda>move.
                                 let tempBoard = movePiece (board s) pos move
                                 in \<not> inCheck) moves)))"

section \<open>Legality as the specification words it\<close>

text \<open>
  The specification's piece carries the square it stands on, and its pseudo-legal moves
  start from there. \<open>onSquares\<close> gives every piece of a board that square as its
  \<open>position\<close>; on a board whose pieces all stand where they were constructed it changes
  nothing.
\<close>

definition onSquares :: "Board \<Rightarrow> Board" where
  "onSquares b = (\<lambda>pos. map_option (\<lambda>piece. piece\<lparr>position := pos\<rparr>) (b pos))"

text \<open>
  The specification's \<open>isCheck\<close>: the color is in check iff the pseudo-legal destinations
  of some opposing piece contain the square of its king.
\<close>

definition isCheck_spec :: "GameState \<Rightarrow> Color \<Rightarrow> bool option" where
  "isCheck_spec s c = isCheck (s\<lparr>board := onSquares (board s)\<rparr>) c"

text \<open>
  The specification's king-safety test: the move is applied to a cloned board, and the
  mover's king is looked for and attacked on that board. \<open>Some True\<close>: the king of
  color \<open>c\<close> is attacked after the move from \<open>from\<close> to \<open>to\<close>.
\<close>

definition leavesKingInCheck_spec :: "GameState \<Rightarrow> Position \<Rightarrow> Position \<Rightarrow> Color \<Rightarrow> bool option" where
  "leavesKingInCheck_spec s from to c = isCheck_spec (s\<lparr>board := movePiece (board s) from to\<rparr>) c"

text \<open>
  The specification's legal moves: the pseudo-legal destinations of the piece at \<open>pos\<close>
  after which its own king is not attacked.
\<close>

definition legalMoves_spec :: "GameState \<Rightarrow> Position \<Rightarrow> Position list" where
  "legalMoves_spec s pos =
     (case getPiece (board s) pos of
        None \<Rightarrow> []
      | Some piece \<Rightarrow>
          filter (\<lambda>to. leavesKingInCheck_spec s pos to (color piece) = Some False)
                 (Piece_getValidMoves (piece\<lparr>position := pos\<rparr>) (onSquares (board s))))"

definition hasLegalMove_spec :: "GameState \<Rightarrow> Color \<Rightarrow> bool" where
  "hasLegalMove_spec s c =
     list_ex (\<lambda>pos. case getPiece (board s) pos of
                       None \<Rightarrow> False
                     | Some piece \<Rightarrow> color piece = c \<and> legalMoves_spec s pos \<noteq> [])
             allSquares"

section \<open>Games and positions used below\<close>

text \<open>A sequence of moves, each submitted to \<open>makeMove\<close>; the flag says that all were accepted.\<close>

fun play :: "GameState \<Rightarrow> (Position \<times> Position) list \<Rightarrow> bool \<times> GameState" where
  "play s [] = (True, s)"
| "play s ((from, to) # ms) =
     (case makeMove s from to of (ok, s1) \<Rightarrow> (case play s1 ms of (oks, s2) \<Rightarrow> (ok \<and> oks, s2)))"

text \<open>
  A new game. The members that the constructor leaves without a value hold what zero-filled
  memory would give them: no rook has moved, and the en-passant square is \<open>Position 0 0\<close>.
\<close>

definition newGame :: GameState where
  "newGame = GameState_new (False, False) (False, False) (Position 0 0)"

text \<open>
  The game that the constructor builds with \<^verbatim>\<open>initializeBoard\<close> as far as the source
  writes it out: sixteen pawns, no other piece.
\<close>

definition pawnsOnlyGame :: GameState where
  "pawnsOnlyGame = newGame\<lparr>board := initializePawns Board_new\<rparr>"

text \<open>A game state with the given pieces, each on the square of its \<open>position\<close> field.\<close>

definition setUp :: "Piece list \<Rightarrow> Color \<Rightarrow> GameState" where
  "setUp pieces toMove =
     newGame\<lparr>board := fold (\<lambda>piece b. setPiece b (position piece) (Some piece)) pieces Board_new,
             currentPlayer := toMove\<rparr>"

text \<open>
  White: king e4, pawns c4 and a2. Black: king e8, pawn d5. White is to move; the pawn
  on d5 attacks e4, and the pawn on c4 can take it.
\<close>

definition checkedPosition :: GameState where
  "checkedPosition =
     setUp [mkPiece KING WHITE (Position 4 4), mkPiece PAWN WHITE (Position 4 2),
            mkPiece PAWN WHITE (Position 6 0),
            mkPiece KING BLACK (Position 0 4), mkPiece PAWN BLACK (Position 3 3)] WHITE"

text \<open>White: king e1. Black: king e8, pawn d3. White is to move; the pawn guards e2.\<close>

definition guardedPosition :: GameState where
  "guardedPosition =
     setUp [mkPiece KING WHITE (Position 7 4),
            mkPiece KING BLACK (Position 0 4), mkPiece PAWN BLACK (Position 5 3)] WHITE"

text \<open>
  White: king a1. Black: king h8, pawns a3, b3 and c2. White is to move: the king is not
  attacked, and each of a2, b2 and b1 is guarded by a pawn.
\<close>

definition corneredPosition :: GameState where
  "corneredPosition =
     setUp [mkPiece KING WHITE (Position 7 0),
            mkPiece KING BLACK (Position 0 7), mkPiece PAWN BLACK (Position 5 0),
            mkPiece PAWN BLACK (Position 5 1), mkPiece PAWN BLACK (Position 6 2)] WHITE"

text \<open>The moves \<^verbatim>\<open>f2f4, e7e6, g2g4, d8h4\<close>.\<close>

definition foolsMate :: "(Position \<times> Position) list" where
  "foolsMate = [(Position 6 5, Position 4 5), (Position 1 4, Position 2 4),
                (Position 6 6, Position 4 6), (Position 0 3, Position 4 7)]"

text \<open>
  The moves \<^verbatim>\<open>e2e4, e7e5, d2d4, d7d5\<close>, which make room for the kings, the king moves
  \<^verbatim>\<open>e1e2, e8e7\<close>, and a round of king moves \<^verbatim>\<open>e2d2, e7d7, d2e2, d7e7\<close> that leads back
  to the position it started from.
\<close>

definition openCentre :: "(Position \<times> Position) list" where
  "openCentre = [(Position 6 4, Position 4 4), (Position 1 4, Position 3 4),
                 (Position 6 3, Position 4 3), (Position 1 3, Position 3 3)]"

definition kingsOut :: "(Position \<times> Position) list" where
  "kingsOut = [(Position 7 4, Position 6 4), (Position 0 4, Position 1 4)]"

definition kingsRound :: "(Position \<times> Position) list" where
  "kingsRound = [(Position 6 4, Position 6 3), (Position 1 4, Position 1 3),
                 (Position 6 3, Position 6 4), (Position 1 3, Position 1 4)]"

text \<open>The game after the four moves of \<open>foolsMate\<close>.\<close>

definition afterFoolsMate :: GameState where
  "afterFoolsMate = snd (play newGame foolsMate)"

text \<open>
  The game after \<^verbatim>\<open>e2e4, e7e5\<close>, the game after undoing \<^verbatim>\<open>e7e5\<close>, and the game after
  resubmitting it.
\<close>

definition afterE5 :: GameState where
  "afterE5 = snd (play newGame [(Position 6 4, Position 4 4), (Position 1 4, Position 3 4)])"

definition afterE5undone :: GameState where
  "afterE5undone = (case undoMove afterE5 of Some u \<Rightarrow> u | None \<Rightarrow> afterE5)"

definition afterE5again :: GameState where
  "afterE5again = snd (makeMove afterE5undone (Position 1 4) (Position 3 4))"

text \<open>The moves \<^verbatim>\<open>e2e4, e7e6, d2d4, f8a3, b2a3\<close>: the last one takes the bishop on a3.\<close>

definition captureGame :: "(Position \<times> Position) list" where
  "captureGame = [(Position 6 4, Position 4 4), (Position 1 4, Position 2 4),
                  (Position 6 3, Position 4 3), (Position 0 5, Position 5 0),
                  (Position 6 1, Position 5 0)]"

text \<open>The games after the kings have come out, and after one and two rounds.\<close>

definition afterKingsOut :: GameState where
  "afterKingsOut = snd (play newGame (openCentre @ kingsOut))"

definition afterRound1 :: GameState where
  "afterRound1 = snd (play afterKingsOut kingsRound)"

definition afterRound2 :: GameState where
  "afterRound2 = snd (play afterRound1 kingsRound)"




section \<open>Properties\<close>

subsection \<open>Coordinates and their notation\<close>

text \<open>
  C8 (amended). Constructing a Coordinate from a notation string fails with
  \<open>InvalidNotation\<close> exactly when the string does not have length 2; every string of the
  form \<^verbatim>\<open>[a-h][1-8]\<close> is accepted and gives a valid coordinate.
\<close>

theorem Position_of_notation_fails_iff:
  "(Position_of_notation n = Inl InvalidNotation \<longleftrightarrow> length n \<noteq> 2) \<and>
   (isSquareName n \<longrightarrow> (\<exists>pos. Position_of_notation n = Inr pos \<and> isValid pos))"
  by (auto simp add: isSquareName_def Position_of_notation_def isValid_def char_value_def)

theorem Position_of_notation_fails_iff_witness:
  "isSquareName ''e2'' \<and> Position_of_notation ''e2'' = Inr (Position 6 4)
   \<and> isValid (Position 6 4) \<and> Position_of_notation ''e2'' \<noteq> Inl InvalidNotation"
  using Position_of_notation_fails_iff [of "''e2''"]
  by (simp add: isSquareName_def Position_of_notation_def isValid_def char_value_def)

text \<open>
  C8 as stated fails: \<^verbatim>\<open>z9\<close> is not of the form \<^verbatim>\<open>[a-h][1-8]\<close>, and the constructor
  accepts it, with a coordinate off the board.
\<close>

theorem notation_z9_accepted:
  "\<not> isSquareName ''z9'' \<and> Position_of_notation ''z9'' = Inr (Position (-1) 25)"
  by (simp add: isSquareName_def Position_of_notation_def char_value_def)

text \<open>
  C9. For every valid Coordinate \<open>c\<close> (both components in \<open>[0,7]\<close>), parsing the notation
  that \<open>c\<close> produces gives \<open>c\<close> back.
\<close>

theorem parse_notation_roundtrip:
  assumes "isValid c"
  shows "Position_of_notation (getNotation c) = Inr c"
proof -
  from assms have r: "0 \<le> getRow c" "getRow c < 8" and k: "0 \<le> getCol c" "getCol c < 8"
    by (simp_all add: isValid_def)
  have a: "char_value (CHR ''a'') = 97" and z: "char_value (CHR ''0'') = 48"
    by (simp_all add: char_value_def)
  have "char_value (char_of (97 + getCol c)) = 97 + getCol c"
    using k by (simp add: char_value_def)
  moreover have "char_value (char_of (48 + (8 - getRow c))) = 48 + (8 - getRow c)"
    using r by (simp add: char_value_def)
  ultimately show ?thesis
    by (cases c) (simp add: Position_of_notation_def getNotation_def a z)
qed

theorem parse_notation_roundtrip_witness:
  "isValid (Position 6 4) \<and> Position_of_notation (getNotation (Position 6 4)) = Inr (Position 6 4)"
  using parse_notation_roundtrip [of "Position 6 4"] by (simp add: isValid_def)

subsection \<open>Rejected moves\<close>

text \<open>
  C10. Whenever \<open>makeMove\<close> returns failure, the entire game state (board, current
  player, move history, castling flags, half-move clock, full-move counter and repetition
  counts) is exactly as it was before the call.
\<close>

theorem makeMove_failure_keeps_state:
  assumes "makeMove s from to = (False, s')"
  shows "s' = s"
  using assms by (auto simp add: makeMove_def Let_def split: option.splits if_splits)

theorem makeMove_failure_keeps_state_witness:
  "makeMove newGame (Position 6 4) (Position 3 4) = (False, newGame)"
proof -
  have "fst (makeMove newGame (Position 6 4) (Position 3 4)) = False"
    by code_simp
  then obtain s' where m: "makeMove newGame (Position 6 4) (Position 3 4) = (False, s')"
    by (cases "makeMove newGame (Position 6 4) (Position 3 4)") simp
  from makeMove_failure_keeps_state [OF m] m show ?thesis by simp
qed

subsection \<open>Facts about the move generators\<close>

lemma opponent_opponent: "opponent (opponent c) = c"
  by (cases c) (simp_all add: opponent_def)

text \<open>Every destination is empty, off the board, or holds an enemy piece.\<close>

lemma ray_notOwn: "x \<in> set (ray n p b pos d) \<Longrightarrow> notOwn p b x"
proof (induction n arbitrary: pos)
  case 0
  then show ?case by simp
next
  case (Suc n)
  obtain dr dc where d: "d = (dr, dc)" by (cases d)
  from Suc.prems Suc.IH show ?case
    by (auto simp add: d Let_def notOwn_def split: if_splits option.splits)
qed

lemma Pawn_notOwn: "x \<in> set (Pawn_getValidMoves p b) \<Longrightarrow> notOwn p b x"
  by (auto simp add: Pawn_getValidMoves_def Let_def notOwn_def split: if_splits option.splits)

lemma destination_notOwn: "x \<in> set (Piece_getValidMoves p b) \<Longrightarrow> notOwn p b x"
  by (cases "getType p")
     (auto simp add: Piece_getValidMoves_def offsetMoves_def rayMoves_def
           dest: ray_notOwn Pawn_notOwn)

text \<open>The generators see of the board only which squares are occupied, and by which color.\<close>

lemma sameColors_None:
  assumes "map_option color (getPiece b x) = map_option color (getPiece b' x)"
  shows "(getPiece b x = None) = (getPiece b' x = None)"
  using assms by (cases "getPiece b x"; cases "getPiece b' x") simp_all

lemma sameColors_notOwn:
  assumes "map_option color (getPiece b x) = map_option color (getPiece b' x)"
  shows "notOwn p b x = notOwn p b' x"
  using assms by (cases "getPiece b x"; cases "getPiece b' x") (simp_all add: notOwn_def)

lemma sameColors_enemy:
  assumes "map_option color (getPiece b x) = map_option color (getPiece b' x)"
  shows "(case getPiece b x of None \<Rightarrow> False | Some t \<Rightarrow> color t \<noteq> c)
       = (case getPiece b' x of None \<Rightarrow> False | Some t \<Rightarrow> color t \<noteq> c)"
  using assms by (cases "getPiece b x"; cases "getPiece b' x") simp_all

lemma sameColors_ray:
  assumes "\<And>x. map_option color (getPiece b x) = map_option color (getPiece b' x)"
  shows "ray n p b pos d = ray n p b' pos d"
proof (induction n arbitrary: pos)
  case 0
  then show ?case by simp
next
  case (Suc n)
  obtain dr dc where d: "d = (dr, dc)" by (cases d)
  let ?next = "Position (getRow pos + dr) (getCol pos + dc)"
  from assms [of ?next] Suc.IH [of ?next] show ?case
    by (cases "getPiece b ?next"; cases "getPiece b' ?next") (simp_all add: d Let_def)
qed

lemma sameColors_Pawn:
  assumes "\<And>x. map_option color (getPiece b x) = map_option color (getPiece b' x)"
  shows "Pawn_getValidMoves p b = Pawn_getValidMoves p b'"
  unfolding Pawn_getValidMoves_def Let_def
  by (simp add: sameColors_None [OF assms] sameColors_enemy [OF assms])

lemma sameColors_moves:
  assumes "\<And>x. map_option color (getPiece b x) = map_option color (getPiece b' x)"
  shows "Piece_getValidMoves p b = Piece_getValidMoves p b'"
proof -
  have "offsetMoves p b os = offsetMoves p b' os" for os
    by (simp add: offsetMoves_def sameColors_notOwn [OF assms])
  moreover have "ray 8 p b (position p) = ray 8 p b' (position p)"
    by (rule ext) (rule sameColors_ray [OF assms])
  then have "rayMoves p b ds = rayMoves p b' ds" for ds
    by (simp add: rayMoves_def)
  ultimately show ?thesis
    by (simp add: Piece_getValidMoves_def sameColors_Pawn [OF assms] split: PieceType.splits)
qed

text \<open>Clearing \<open>hasMoved\<close> never removes a destination.\<close>

lemma notOwn_hasMoved: "notOwn (p\<lparr>hasMoved := h\<rparr>) b x = notOwn p b x"
  by (simp add: notOwn_def split: option.splits)

lemma ray_hasMoved: "ray n (p\<lparr>hasMoved := h\<rparr>) b pos d = ray n p b pos d"
proof (induction n arbitrary: pos)
  case 0
  then show ?case by simp
next
  case (Suc n)
  obtain dr dc where d: "d = (dr, dc)" by (cases d)
  let ?next = "Position (getRow pos + dr) (getCol pos + dc)"
  from Suc.IH [of ?next] show ?case
    by (cases "getPiece b ?next") (simp_all add: d Let_def)
qed

lemma Pawn_hasMoved:
  "set (Pawn_getValidMoves p b) \<subseteq> set (Pawn_getValidMoves (p\<lparr>hasMoved := False\<rparr>) b)"
  by (auto simp add: Pawn_getValidMoves_def Let_def split: if_splits option.splits)

lemma moves_hasMoved:
  "set (Piece_getValidMoves p b) \<subseteq> set (Piece_getValidMoves (p\<lparr>hasMoved := False\<rparr>) b)"
proof -
  have "offsetMoves (p\<lparr>hasMoved := False\<rparr>) b os = offsetMoves p b os" for os
    by (simp add: offsetMoves_def notOwn_hasMoved)
  moreover have "ray 8 (p\<lparr>hasMoved := False\<rparr>) b (position p) = ray 8 p b (position p)"
    by (rule ext) (rule ray_hasMoved)
  then have "rayMoves (p\<lparr>hasMoved := False\<rparr>) b ds = rayMoves p b ds" for ds
    by (simp add: rayMoves_def)
  ultimately show ?thesis
    using Pawn_hasMoved [of p b]
    by (cases "getType p") (simp_all add: Piece_getValidMoves_def)
qed

subsection \<open>Making a move and undoing it\<close>

text \<open>What \<open>updateGameState\<close> and \<open>executeMove\<close> leave alone.\<close>

lemma updateGameState_fields:
  "board (updateGameState s) = board s"
  "currentPlayer (updateGameState s) = currentPlayer s"
  "moveHistory (updateGameState s) = moveHistory s"
  "whiteKingMoved (updateGameState s) = whiteKingMoved s"
  "blackKingMoved (updateGameState s) = blackKingMoved s"
  "whiteRookMoved (updateGameState s) = whiteRookMoved s"
  "blackRookMoved (updateGameState s) = blackRookMoved s"
  "enPassantTarget (updateGameState s) = enPassantTarget s"
  by (simp_all add: updateGameState_def Let_def)

lemma executeMove_fields:
  "currentPlayer (executeMove s move) = opponent (currentPlayer s)"
  "whiteKingMoved (executeMove s move) = whiteKingMoved s"
  "blackKingMoved (executeMove s move) = blackKingMoved s"
  "whiteRookMoved (executeMove s move) = whiteRookMoved s"
  "blackRookMoved (executeMove s move) = blackRookMoved s"
  "enPassantTarget (executeMove s move) = enPassantTarget s"
  "halfMoveClock (executeMove s move) = halfMoveClock s"
  "fullMoveNumber (executeMove s move) = fullMoveNumber s"
  "positionHistory (executeMove s move) = positionHistory s"
  by (simp_all add: executeMove_def Let_def)

lemma executeMove_history:
  "moveHistory (executeMove s (Move_new from to piece))
   = moveHistory s @ [(Move_new from to piece)\<lparr>capturedPiece := getPiece (board s) to\<rparr>]"
  by (simp add: executeMove_def Let_def Move_new_def)

lemma Move_new_sel:
  "m_from (Move_new from to piece) = from"
  "m_to (Move_new from to piece) = to"
  "m_piece (Move_new from to piece) = piece"
  "capturedPiece (Move_new from to piece) = None"
  by (simp_all add: Move_new_def)

lemma executeMove_board:
  assumes "getPiece (board s) from = Some piece" and "from \<noteq> to"
  shows "board (executeMove s (Move_new from to piece))
         = (if isValid to
            then ((board s)(to := Some (piece\<lparr>hasMoved := True\<rparr>)))(from := None)
            else (board s)(from := Some (piece\<lparr>hasMoved := True\<rparr>)))"
proof -
  from assms(1) have v: "isValid from" and o: "board s from = Some piece"
    by (simp_all add: getPiece_def split: if_splits)
  show ?thesis
  proof (cases "isValid to")
    case True
    have m: "movePiece (board s) from to = ((board s)(to := Some piece))(from := None)"
      using v True assms(2) o by (simp add: movePiece_def)
    have "setHasMovedAt (movePiece (board s) from to) to (\<lambda>_. True)
          = ((board s)(to := Some (piece\<lparr>hasMoved := True\<rparr>)))(from := None)"
      using True assms(2) by (simp add: m setHasMovedAt_def getPiece_def setPiece_def fun_eq_iff)
    then show ?thesis
      using v True by (simp add: executeMove_def Let_def Move_new_def)
  next
    case False
    have m: "movePiece (board s) from to = board s"
      using False by (simp add: movePiece_def)
    have "setHasMovedAt (movePiece (board s) from to) from (\<lambda>_. True)
          = (board s)(from := Some (piece\<lparr>hasMoved := True\<rparr>))"
      using v o by (simp add: m setHasMovedAt_def getPiece_def setPiece_def)
    then show ?thesis
      using False by (simp add: executeMove_def Let_def Move_new_def)
  qed
qed

text \<open>
  Undoing a move that captured nothing: the board after \<open>executeMove\<close>, with the mover
  taken back and its flag flipped.
\<close>

lemma undoMove_board_after_executeMove:
  assumes "getPiece (board s) from = Some piece" and "from \<noteq> to"
    and "getPiece (board s) to = None"
  shows "setHasMovedAt (movePiece (board (executeMove s (Move_new from to piece))) to from)
           from (\<lambda>moved. \<not> moved)
         = (board s)(from := Some (piece\<lparr>hasMoved := False\<rparr>))"
proof -
  from assms(1) have v: "isValid from" and o: "board s from = Some piece"
    by (simp_all add: getPiece_def split: if_splits)
  let ?pT = "piece\<lparr>hasMoved := True\<rparr>"
  let ?b1 = "board (executeMove s (Move_new from to piece))"
  have b: "?b1 = (if isValid to
            then ((board s)(to := Some ?pT))(from := None)
            else (board s)(from := Some ?pT))"
    by (rule executeMove_board [OF assms(1,2)])
  have m: "movePiece ?b1 to from = (board s)(from := Some ?pT)"
  proof (cases "isValid to")
    case True
    with assms(3) have "board s to = None"
      by (simp add: getPiece_def)
    then show ?thesis
      using v True assms(2) by (simp add: b movePiece_def fun_eq_iff)
  next
    case False
    then show ?thesis
      by (simp add: b movePiece_def)
  qed
  show ?thesis
    unfolding m using v by (simp add: setHasMovedAt_def getPiece_def setPiece_def)
qed

lemma undoMove_no_capture:
  assumes "moveHistory s \<noteq> []" and "capturedPiece (last (moveHistory s)) = None"
  shows "undoMove s =
           Some (s\<lparr>moveHistory := butlast (moveHistory s),
                   board := setHasMovedAt
                              (movePiece (board s) (m_to (last (moveHistory s)))
                                 (m_from (last (moveHistory s))))
                              (m_from (last (moveHistory s))) (\<lambda>moved. \<not> moved),
                   currentPlayer := opponent (currentPlayer s)\<rparr>)"
  using assms by (simp add: undoMove_def Let_def)

text \<open>Undoing a move that captured a piece has no defined result.\<close>

lemma undoMove_capture:
  assumes "moveHistory s \<noteq> []" and "capturedPiece (last (moveHistory s)) \<noteq> None"
  shows "undoMove s = None"
  using assms by (simp add: undoMove_def Let_def)

lemma makeMove_accepted:
  assumes "makeMove s from to = (True, s1)"
  obtains piece where "getPiece (board s) from = Some piece"
    and "color piece = currentPlayer s"
    and "to \<in> set (Piece_getValidMoves piece (board s))"
    and "s1 = updateGameState (executeMove s (Move_new from to piece))"
  using assms
  by (auto simp add: makeMove_def canMoveTo_def handleCastling_def handleEnPassant_def
        handlePromotion_def Let_def split: option.splits if_splits)

lemma makeMove_accepts:
  assumes "getPiece (board s) from = Some piece"
    and "color piece = currentPlayer s"
    and "to \<in> set (Piece_getValidMoves piece (board s))"
  shows "makeMove s from to = (True, updateGameState (executeMove s (Move_new from to piece)))"
  using assms
  by (simp add: makeMove_def canMoveTo_def handleCastling_def handleEnPassant_def
        handlePromotion_def Let_def)

lemma undoMove_after_capturing_move:
  assumes "makeMove s from to = (True, s1)" and "getPiece (board s) to \<noteq> None"
  shows "undoMove s1 = None"
proof -
  from assms(1) obtain piece where "s1 = updateGameState (executeMove s (Move_new from to piece))"
    by (rule makeMove_accepted)
  then have "moveHistory s1
             = moveHistory s @ [(Move_new from to piece)\<lparr>capturedPiece := getPiece (board s) to\<rparr>]"
    by (simp add: updateGameState_fields executeMove_history)
  with assms(2) show ?thesis
    by (simp add: undoMove_capture)
qed

text \<open>In a game: after \<^verbatim>\<open>e2e4, e7e6, d2d4, f8a3\<close> the pawn on b2 takes the bishop on a3.\<close>

lemma undoMove_captureGame:
  "fst (play newGame captureGame) \<and> Option.is_none (undoMove (snd (play newGame captureGame)))"
  by code_simp

text \<open>The first four fields of the exported string depend on these members only.\<close>

lemma fenPosition_cong:
  assumes "board s = board s'" "currentPlayer s = currentPlayer s'"
    "whiteKingMoved s = whiteKingMoved s'" "blackKingMoved s = blackKingMoved s'"
    "whiteRookMoved s = whiteRookMoved s'" "blackRookMoved s = blackRookMoved s'"
    "enPassantTarget s = enPassantTarget s'"
  shows "fenPosition s = fenPosition s'"
  using assms by (simp add: fenPosition_def getCastlingString_def)

text \<open>
  C5 (amended). After any successful \<open>makeMove\<close> that captures nothing, \<open>undoMove\<close>
  returns, and re-submitting the identical move then succeeds again and yields the same
  board, the same player to move and the same first four fields of the exported string
  (placement, active color, castling, en passant) as the first execution. \<open>undoMove\<close> pops
  the move, reverts the current player and reverses the board mutation: every other square
  holds what it held before the move, and the mover is back on its square. \<open>undoMove\<close>
  leaves the half-move clock, the full-move number and the repetition counts as the commit
  set them.
\<close>

theorem undoMove_then_same_move:
  assumes "makeMove s from to = (True, s1)" and "getPiece (board s) to = None"
  shows "\<exists>u. undoMove s1 = Some u
       \<and> (\<exists>s2. makeMove u from to = (True, s2) \<and> board s2 = board s1
              \<and> currentPlayer s2 = currentPlayer s1 \<and> fenPosition s2 = fenPosition s1)
       \<and> currentPlayer u = currentPlayer s
       \<and> moveHistory u = moveHistory s
       \<and> (\<forall>pos. pos \<noteq> from \<longrightarrow> getPiece (board u) pos = getPiece (board s) pos)
       \<and> map_option (\<lambda>p. (color p, getType p, position p)) (getPiece (board u) from)
         = map_option (\<lambda>p. (color p, getType p, position p)) (getPiece (board s) from)
       \<and> halfMoveClock u = halfMoveClock s1
       \<and> fullMoveNumber u = fullMoveNumber s1
       \<and> positionHistory u = positionHistory s1"
proof -
  from assms(1) obtain piece where p: "getPiece (board s) from = Some piece"
    and c: "color piece = currentPlayer s"
    and m: "to \<in> set (Piece_getValidMoves piece (board s))"
    and s1: "s1 = updateGameState (executeMove s (Move_new from to piece))"
    by (rule makeMove_accepted)
  let ?pF = "piece\<lparr>hasMoved := False\<rparr>"
  let ?mv = "(Move_new from to piece)\<lparr>capturedPiece := getPiece (board s) to\<rparr>"
  from p have v: "isValid from" and o: "board s from = Some piece"
    by (simp_all add: getPiece_def split: if_splits)
  have ne: "from \<noteq> to"
    using p assms(2) by auto
  have h1: "moveHistory s1 = moveHistory s @ [?mv]"
    by (simp add: s1 updateGameState_fields executeMove_history)
  have bs1: "board s1 = board (executeMove s (Move_new from to piece))"
    by (simp add: s1 updateGameState_fields)
  have cs1: "currentPlayer s1 = opponent (currentPlayer s)"
    by (simp add: s1 updateGameState_fields executeMove_fields)
  define u where
    "u = s1\<lparr>moveHistory := moveHistory s,
            board := (board s)(from := Some ?pF),
            currentPlayer := currentPlayer s\<rparr>"
  have l: "last (moveHistory s1) = ?mv" and bl: "butlast (moveHistory s1) = moveHistory s"
    by (simp_all add: h1)
  have nc: "moveHistory s1 \<noteq> []" "capturedPiece (last (moveHistory s1)) = None"
    by (simp_all add: h1 assms(2))
  have bu: "setHasMovedAt (movePiece (board s1) to from) from (\<lambda>moved. \<not> moved)
             = (board s)(from := Some ?pF)"
    unfolding bs1 by (rule undoMove_board_after_executeMove [OF p ne assms(2)])
  have undo: "undoMove s1 = Some u"
    unfolding undoMove_no_capture [OF nc] l bl
    by (simp add: Move_new_sel bu cs1 opponent_opponent u_def)
  have ub: "board u = (board s)(from := Some ?pF)"
    and up: "currentPlayer u = currentPlayer s"
    and uh: "moveHistory u = moveHistory s"
    and uf: "whiteKingMoved u = whiteKingMoved s1" "blackKingMoved u = blackKingMoved s1"
      "whiteRookMoved u = whiteRookMoved s1" "blackRookMoved u = blackRookMoved s1"
      "enPassantTarget u = enPassantTarget s1"
    and uc: "halfMoveClock u = halfMoveClock s1" "fullMoveNumber u = fullMoveNumber s1"
      "positionHistory u = positionHistory s1"
    by (simp_all add: u_def)
  have gu: "getPiece (board u) pos = (if pos = from then Some ?pF else getPiece (board s) pos)" for pos
    using v by (simp add: ub getPiece_def)
  have "map_option color (getPiece (board s) x) = map_option color (getPiece (board u) x)" for x
    by (simp add: gu p)
  then have "Piece_getValidMoves ?pF (board s) = Piece_getValidMoves ?pF (board u)"
    by (rule sameColors_moves)
  with m moves_hasMoved [of piece "board s"]
  have m2: "to \<in> set (Piece_getValidMoves ?pF (board u))"
    by auto
  have pu: "getPiece (board u) from = Some ?pF"
    by (simp add: gu)
  have cu: "color ?pF = currentPlayer u"
    by (simp add: up c)
  let ?s2 = "updateGameState (executeMove u (Move_new from to ?pF))"
  have again: "makeMove u from to = (True, ?s2)"
    by (rule makeMove_accepts [OF pu cu m2])
  have b1: "board s1 = (if isValid to
            then ((board s)(to := Some (piece\<lparr>hasMoved := True\<rparr>)))(from := None)
            else (board s)(from := Some (piece\<lparr>hasMoved := True\<rparr>)))"
    by (simp add: bs1 executeMove_board [OF p ne])
  have b2: "board ?s2 = (if isValid to
            then ((board u)(to := Some (piece\<lparr>hasMoved := True\<rparr>)))(from := None)
            else (board u)(from := Some (piece\<lparr>hasMoved := True\<rparr>)))"
    by (simp add: updateGameState_fields executeMove_board [OF pu ne])
  have bb: "board ?s2 = board s1"
    unfolding b1 b2 ub using ne by (simp add: fun_eq_iff)
  have cc: "currentPlayer ?s2 = currentPlayer s1"
    by (simp add: updateGameState_fields executeMove_fields up cs1)
  have ff: "fenPosition ?s2 = fenPosition s1"
    by (rule fenPosition_cong [OF bb cc])
       (simp_all add: updateGameState_fields executeMove_fields uf)
  from again bb cc ff
  have first: "\<exists>s2. makeMove u from to = (True, s2) \<and> board s2 = board s1
              \<and> currentPlayer s2 = currentPlayer s1 \<and> fenPosition s2 = fenPosition s1"
    by blast
  have others: "\<forall>pos. pos \<noteq> from \<longrightarrow> getPiece (board u) pos = getPiece (board s) pos"
    by (simp add: gu)
  have mover: "map_option (\<lambda>p. (color p, getType p, position p)) (getPiece (board u) from)
         = map_option (\<lambda>p. (color p, getType p, position p)) (getPiece (board s) from)"
    by (simp add: gu p)
  from undo first up uh others mover uc show ?thesis
    by blast
qed

theorem undoMove_then_same_move_witness:
  "makeMove newGame (Position 6 4) (Position 4 4)
     = (True, snd (makeMove newGame (Position 6 4) (Position 4 4)))
   \<and> getPiece (board newGame) (Position 4 4) = None
   \<and> (\<exists>u. undoMove (snd (makeMove newGame (Position 6 4) (Position 4 4))) = Some u
          \<and> fst (makeMove u (Position 6 4) (Position 4 4))
          \<and> currentPlayer u = currentPlayer newGame)"
proof -
  have "fst (makeMove newGame (Position 6 4) (Position 4 4))"
    by code_simp
  then have m: "makeMove newGame (Position 6 4) (Position 4 4)
                = (True, snd (makeMove newGame (Position 6 4) (Position 4 4)))"
    by (simp add: prod_eq_iff)
  have e: "getPiece (board newGame) (Position 4 4) = None"
    by code_simp
  from undoMove_then_same_move [OF m e] obtain u
    where "undoMove (snd (makeMove newGame (Position 6 4) (Position 4 4))) = Some u"
      and "\<exists>s2. makeMove u (Position 6 4) (Position 4 4) = (True, s2)"
      and "currentPlayer u = currentPlayer newGame"
    by blast
  with m e show ?thesis
    by auto
qed

text \<open>
  C5 as stated fails: after \<^verbatim>\<open>e2e4, e7e5\<close>, undoing and resubmitting \<^verbatim>\<open>e7e5\<close> (which
  captures nothing) succeeds, and the exported string differs from the first one (the
  full-move number is 3, not 2).
\<close>

theorem undo_redo_changes_FEN:
  "fst (play newGame [(Position 6 4, Position 4 4), (Position 1 4, Position 3 4)])
   \<and> \<not> Option.is_none (undoMove afterE5)
   \<and> fst (makeMove afterE5undone (Position 1 4) (Position 3 4))
   \<and> getFEN afterE5again \<noteq> getFEN afterE5"
  by code_simp

subsection \<open>King safety\<close>

text \<open>
  \<open>makeMove\<close> accepts a move exactly when the source square holds a piece of the player
  to move and the destination is among that piece's pseudo-legal destinations.
\<close>

lemma makeMove_accepted_iff:
  "fst (makeMove s from to) \<longleftrightarrow>
     (\<exists>piece. getPiece (board s) from = Some piece \<and> color piece = currentPlayer s
              \<and> canMoveTo piece to (board s))"
  by (simp add: makeMove_def Let_def split: option.splits)

text \<open>
  C1. For every submitted move, \<open>makeMove\<close> trial-applies the candidate move to a cloned
  board and rejects it whenever the mover's own king would be attacked in the resulting
  position. The code does not. In \<open>checkedPosition\<close> the white king on e4 is attacked by
  the pawn on d5, and \<open>makeMove\<close> accepts \<^verbatim>\<open>a2a3\<close>, after which the king is still
  attacked. In a game: after \<^verbatim>\<open>f2f4, e7e6, g2g4, d8h4\<close> the queen on h4 attacks the king
  on e1, and \<open>makeMove\<close> accepts \<^verbatim>\<open>a2a3\<close>.
\<close>

theorem makeMove_leaves_king_in_check:
  "fst (makeMove checkedPosition (Position 6 0) (Position 5 0))
   \<and> leavesKingInCheck_spec checkedPosition (Position 6 0) (Position 5 0) WHITE = Some True
   \<and> isCheck (snd (makeMove checkedPosition (Position 6 0) (Position 5 0))) WHITE = Some True
   \<and> fst (play newGame foolsMate)
   \<and> fst (makeMove afterFoolsMate (Position 6 0) (Position 5 0))
   \<and> leavesKingInCheck_spec afterFoolsMate (Position 6 0) (Position 5 0) WHITE = Some True"
  by code_simp

text \<open>
  In \<open>isCheckmate\<close> every trial ends with the same \<open>isCheck\<close> of the game itself, so
  the answer is that of \<open>isCheck\<close>.
\<close>

lemma isCheckmate_is_isCheck: "isCheckmate s c = isCheck s c"
proof (cases "isCheck s c")
  case None
  then show ?thesis by (simp add: isCheckmate_def)
next
  case (Some inCheck)
  then show ?thesis
    by (cases inCheck) (simp_all add: isCheckmate_def list_ex_iff)
qed

text \<open>
  C2. \<open>isCheckmate c\<close> is true if and only if \<open>isCheck c\<close> is true and no legal move
  exists for color \<open>c\<close>; in particular, after \<^verbatim>\<open>f2f4, e7e6, g2g4, d8h4\<close> from the initial
  position, \<open>isCheckmate WHITE\<close> is true and \<open>isCheckmate BLACK\<close> is false. The code
  answers otherwise twice. After the four moves (all accepted) White is in check and has
  no legal move, as the specification words them, and \<open>isCheckmate WHITE\<close> is false: the
  queen that the board holds on h4 still generates its moves from d8. And in
  \<open>checkedPosition\<close> White is in check and can take the checking pawn with \<^verbatim>\<open>c4d5\<close>,
  yet \<open>isCheckmate WHITE\<close> is true.
\<close>

theorem isCheckmate_wrong_twice:
  "fst (play newGame foolsMate)
   \<and> isCheck_spec afterFoolsMate WHITE = Some True
   \<and> \<not> hasLegalMove_spec afterFoolsMate WHITE
   \<and> isCheckmate afterFoolsMate WHITE = Some False
   \<and> isCheckmate afterFoolsMate BLACK = Some False
   \<and> isCheck checkedPosition WHITE = Some True
   \<and> hasLegalMove_spec checkedPosition WHITE
   \<and> isCheckmate checkedPosition WHITE = Some True"
  by code_simp

text \<open>
  With the pawns alone on the board, the fourth move finds no piece on d8 and is rejected,
  and \<open>isCheckmate WHITE\<close> looks for a king that is not there.
\<close>

lemma foolsMate_pawnsOnly:
  "fst (play pawnsOnlyGame (take 3 foolsMate))
   \<and> \<not> fst (play pawnsOnlyGame foolsMate)
   \<and> isCheckmate (snd (play pawnsOnlyGame foolsMate)) WHITE = None"
  by code_simp

text \<open>
  \<open>getValidMoves\<close> of the game returns every pseudo-legal destination when the side
  is not in check, and none when it is.
\<close>

lemma getValidMoves_not_in_check:
  assumes "getPiece (board s) pos = Some piece" and "isCheck s (color piece) = Some False"
  shows "getValidMoves s pos = Some (Piece_getValidMoves piece (board s))"
  using assms by (simp add: getValidMoves_def Let_def)

lemma getValidMoves_in_check:
  assumes "getPiece (board s) pos = Some piece" and "isCheck s (color piece) = Some True"
  shows "getValidMoves s pos = Some []"
  using assms by (simp add: getValidMoves_def Let_def)

text \<open>
  C3. No destination returned by \<open>getValidMoves pos\<close>, when that move is applied,
  leaves the moving side's own king in check. The code returns such destinations. In
  \<open>guardedPosition\<close> the moves of the king on e1 include e2, where the pawn on d3
  attacks it. In a game: after \<^verbatim>\<open>f2f4, e7e6, g2g4, d8h4\<close> the moves of the pawn on a2
  are a3 and a4, and the queen on h4 keeps attacking the king on e1.
\<close>

theorem getValidMoves_into_check:
  "getValidMoves guardedPosition (Position 7 4)
     = Some [Position 6 4, Position 7 3, Position 7 5, Position 6 3, Position 6 5]
   \<and> leavesKingInCheck_spec guardedPosition (Position 7 4) (Position 6 4) WHITE = Some True
   \<and> fst (play newGame foolsMate)
   \<and> getValidMoves afterFoolsMate (Position 6 0) = Some [Position 5 0, Position 4 0]
   \<and> leavesKingInCheck_spec afterFoolsMate (Position 6 0) (Position 5 0) WHITE = Some True"
  by code_simp

text \<open>\<open>isStalemate\<close> asks for pseudo-legal moves only.\<close>

lemma isStalemate_iff:
  "isStalemate s c = Some True \<longleftrightarrow>
     isCheck s c = Some False \<and>
     (\<forall>piece \<in> set (piecesOf (board s) c). Piece_getValidMoves piece (board s) = [])"
  by (auto simp add: isStalemate_def list_ex_iff split: option.splits bool.splits)

text \<open>
  A position set up by hand, which no game reaches: White is not in check, every move of
  its only piece, the king, ends on a square that a pawn attacks, and \<open>isStalemate WHITE\<close>
  is false. Whether a game can reach a position where \<open>isStalemate\<close> and the
  specification's legal moves disagree is left open here.
\<close>

lemma isStalemate_corneredPosition:
  "isCheck corneredPosition WHITE = Some False
   \<and> isCheck_spec corneredPosition WHITE = Some False
   \<and> \<not> hasLegalMove_spec corneredPosition WHITE
   \<and> isStalemate corneredPosition WHITE = Some False"
  by code_simp

subsection \<open>Draws\<close>

lemma isDraw_iff:
  "isDraw s \<longleftrightarrow> (\<exists>entry \<in> set (positionHistory s). 3 \<le> snd entry) \<or> 50 \<le> halfMoveClock s"
  by (simp add: isDraw_def isInsufficientMaterial_def isThreefoldRepetition_def list_ex_iff)

text \<open>The key that an accepted move counts is the whole exported string of the new state.\<close>

lemma getFEN_positionHistory: "getFEN (s\<lparr>positionHistory := h\<rparr>) = getFEN s"
  by (simp add: getFEN_def fenPosition_def getCastlingString_def)

lemma makeMove_counts_FEN:
  assumes "makeMove s from to = (True, s1)"
  shows "positionHistory s1 = increment (getFEN s1) (positionHistory s)"
proof -
  from assms obtain piece where "s1 = updateGameState (executeMove s (Move_new from to piece))"
    by (rule makeMove_accepted)
  then show ?thesis
    by (simp add: updateGameState_def Let_def getFEN_positionHistory executeMove_fields)
qed

text \<open>
  C6. \<open>isDraw\<close> returns true as soon as some position (pieces, side to move, castling
  rights and en-passant target) has occurred three or more times. The code does not: the
  key that \<open>updateGameState\<close> counts is the whole exported string, with both counters.
  After \<^verbatim>\<open>e2e4, e7e5, d2d4, d7d5, e1e2, e8e7\<close> and two rounds of
  \<^verbatim>\<open>e2d2, e7d7, d2e2, d7e7\<close> (all accepted) the same position has occurred three times,
  and \<open>isDraw\<close> is false.
\<close>

theorem isDraw_misses_repetition:
  "fst (play newGame (openCentre @ kingsOut))
   \<and> fst (play afterKingsOut kingsRound)
   \<and> fst (play afterRound1 kingsRound)
   \<and> fenPosition afterKingsOut = fenPosition afterRound1
   \<and> fenPosition afterRound1 = fenPosition afterRound2
   \<and> halfMoveClock afterRound2 = 10
   \<and> \<not> isDraw afterRound2"
  by code_simp












end
